theory Spec2Isabelle
  imports Complex_Main
begin

section \<open>Numeric model\<close>

text \<open>
  The module \<^verbatim>\<open>ht/air_cooler.py\<close> computes with Python floats. They are modelled
  as real numbers: rounding, overflow and the values inf and nan are outside the model.
  An exception raised by an arithmetic primitive is a value of type \<open>error\<close>, and a
  computation that may raise returns \<open>error + real\<close>, the error on the left.
\<close>

datatype error = ZeroDivisionError | ValueError

text \<open>Python's \<^verbatim>\<open>x / y\<close> on floats (true division): a zero divisor raises.\<close>

definition float_div :: "real \<Rightarrow> real \<Rightarrow> error + real" where
  "float_div x y = (if y = 0 then Inl ZeroDivisionError else Inr (x / y))"

text \<open>
  Python's \<^verbatim>\<open>x ** y\<close> on floats. A zero base with a negative exponent raises
  ZeroDivisionError. A negative base with a fractional exponent has no real result
  (Python 2 raises ValueError, Python 3 yields a complex number); the model stops there
  with ValueError. An integral exponent gives the integer power, \<^verbatim>\<open>0.0 ** 0.0\<close>
  being 1.
\<close>

definition float_pow :: "real \<Rightarrow> real \<Rightarrow> error + real" where
  "float_pow x y =
     (if x = 0 \<and> y < 0 then Inl ZeroDivisionError
      else if x < 0 \<and> real_of_int \<lfloor>y\<rfloor> \<noteq> y then Inl ValueError
      else if real_of_int \<lfloor>y\<rfloor> = y then Inr (x powi \<lfloor>y\<rfloor>)
      else Inr (x powr y))"

text \<open>\<^verbatim>\<open>math.log\<close> and \<^verbatim>\<open>math.log10\<close>: a non-positive argument raises ValueError.\<close>

definition math_log :: "real \<Rightarrow> error + real" where
  "math_log x = (if x \<le> 0 then Inl ValueError else Inr (ln x))"

definition math_log10 :: "real \<Rightarrow> error + real" where
  "math_log10 x = (if x \<le> 0 then Inl ValueError else Inr (log 10 x))"

text \<open>
  The constants imported from \<^verbatim>\<open>scipy.constants\<close>: \<^verbatim>\<open>minute\<close> is 60 (seconds) and
  \<^verbatim>\<open>hp\<close> is the mechanical horsepower in watts, 550 ft lbf/s, which scipy computes as
  \<^verbatim>\<open>550 * foot * pound * g\<close> with foot = 0.3048, pound = 0.45359237 and g = 9.80665.
\<close>

definition minute :: real where
  "minute = 60"

definition hp :: real where
  "hp = 550 * 0.3048 * 0.45359237 * 9.80665"

section \<open>Coefficient tables\<close>

text \<open>The eight module-level tables of Roetzel and Nicole, rows indexed by k, columns by i.\<close>

definition crossflow_1_row_1_pass :: "real list list" where
  "crossflow_1_row_1_pass =
     [[-0.462, -0.0313, -0.174, -0.042],
      [5.08, 0.529, 1.32, 0.347],
      [-15.7, -2.37, -2.93, -0.853],
      [17.2, 3.18, 1.99, 0.649]]"

definition crossflow_2_rows_1_pass :: "real list list" where
  "crossflow_2_rows_1_pass =
     [[-0.334, -0.154, -0.0865, 0.0553],
      [3.3, 1.28, 0.546, -0.405],
      [-8.7, -3.35, -0.929, 0.953],
      [8.7, 2.83, 0.471, -0.717]]"

definition crossflow_3_rows_1_pass :: "real list list" where
  "crossflow_3_rows_1_pass =
     [[-0.0874, -0.0318, -0.0183, 0.0071],
      [1.05, 0.274, 0.123, -0.0499],
      [-2.45, -0.746, -0.156, 0.109],
      [3.21, 0.668, 0.0617, -0.0746]]"

definition crossflow_4_rows_1_pass :: "real list list" where
  "crossflow_4_rows_1_pass =
     [[-0.0414, -0.0139, -0.00723, 0.0061],
      [0.615, 0.123, 0.0566, -0.0468],
      [-1.2, -0.345, -0.0437, 0.107],
      [2.06, 0.318, 0.0111, -0.0757]]"

definition crossflow_2_rows_2_pass :: "real list list" where
  "crossflow_2_rows_2_pass =
     [[-0.235, -0.0773, -0.0598, 0.00525],
      [2.28, 0.632, 0.364, -0.0127],
      [-6.44, -1.63, -0.613, -0.0114],
      [6.24, 1.35, 0.276, 0.0272]]"

definition crossflow_3_rows_3_pass :: "real list list" where
  "crossflow_3_rows_3_pass =
     [[-0.843, 0.0302, 0.48, 0.0812],
      [5.85, -0.00964, -3.28, -0.834],
      [-12.8, -0.228, 7.11, 2.19],
      [9.24, 0.266, -4.9, -1.69]]"

definition crossflow_4_rows_4_pass :: "real list list" where
  "crossflow_4_rows_4_pass =
     [[-0.339, 0.0277, 0.179, -0.0199],
      [2.38, -0.0999, -1.21, 0.04],
      [-5.26, 0.0904, 2.62, 0.0494],
      [3.9, -0.000845, -1.81, -0.0981]]"

definition crossflow_4_rows_2_pass :: "real list list" where
  "crossflow_4_rows_2_pass =
     [[-0.605, 0.0231, 0.294, 0.0198],
      [4.34, 0.0059, -1.99, -0.305],
      [-9.72, -0.248, 4.32, 0.897],
      [7.54, 0.287, -3.0, -0.731]]"

section \<open>Crossflow correction factor\<close>

text \<open>
  The \<^verbatim>\<open>if\<close>/\<^verbatim>\<open>elif\<close> chain of \<^verbatim>\<open>Ft_aircooler\<close> that binds \<^verbatim>\<open>coefs\<close>, in the
  source's order.
\<close>

definition Ft_aircooler_coefs :: "int \<Rightarrow> int \<Rightarrow> real list list" where
  "Ft_aircooler_coefs Ntp rows =
     (if Ntp = 1 \<and> rows = 1 then crossflow_1_row_1_pass
      else if Ntp = 1 \<and> rows = 2 then crossflow_2_rows_1_pass
      else if Ntp = 1 \<and> rows = 3 then crossflow_3_rows_1_pass
      else if Ntp = 1 \<and> rows = 4 then crossflow_4_rows_1_pass
      else if Ntp = 1 \<and> rows > 4 then crossflow_4_rows_1_pass
      else if Ntp = 2 \<and> rows = 2 then crossflow_2_rows_2_pass
      else if Ntp = 3 \<and> rows = 3 then crossflow_3_rows_3_pass
      else if Ntp = 4 \<and> rows = 4 then crossflow_4_rows_4_pass
      else if Ntp > 4 \<and> rows > 4 \<and> Ntp = rows then crossflow_4_rows_4_pass
      else if Ntp = 2 \<and> rows = 4 then crossflow_4_rows_2_pass
      else crossflow_4_rows_2_pass)"

text \<open>
  The inner loop \<^verbatim>\<open>for i in cmps: tot += coefs[k][i]*x0*sin(2.*(i + 1.)*atanR)\<close>,
  on the row \<^verbatim>\<open>coefs[k]\<close>, and the outer loop \<^verbatim>\<open>for k in cmps\<close>, which computes
  \<^verbatim>\<open>x0 = (1. - rlm)**(k + 1.)\<close> before each inner loop. Both run over
  \<^verbatim>\<open>cmps = range(len(coefs))\<close>; every table is 4 by 4, so no index is out of range.
\<close>

fun Ft_inner_loop :: "real list \<Rightarrow> real \<Rightarrow> real \<Rightarrow> nat list \<Rightarrow> real \<Rightarrow> real" where
  "Ft_inner_loop row x0 atanR [] tot = tot"
| "Ft_inner_loop row x0 atanR (i # js) tot =
     Ft_inner_loop row x0 atanR js (tot + row ! i * x0 * sin (2 * (real i + 1) * atanR))"

fun Ft_outer_loop ::
  "real list list \<Rightarrow> real \<Rightarrow> real \<Rightarrow> nat list \<Rightarrow> nat list \<Rightarrow> real \<Rightarrow> error + real" where
  "Ft_outer_loop coefs rlm atanR cmps [] tot = Inr tot"
| "Ft_outer_loop coefs rlm atanR cmps (k # ks) tot =
     (case float_pow (1 - rlm) (real k + 1) of
        Inl e \<Rightarrow> Inl e
      | Inr x0 \<Rightarrow>
          Ft_outer_loop coefs rlm atanR cmps ks (Ft_inner_loop (coefs ! k) x0 atanR cmps tot))"

text \<open>
  \<^verbatim>\<open>Ft_aircooler(Thi, Tho, Tci, Tco, Ntp, rows)\<close>. The helper \<^verbatim>\<open>LMTD\<close> of
  \<^verbatim>\<open>ht.core\<close> is the first argument: any function of the four temperatures that
  returns a number or raises.
\<close>

definition Ft_aircooler ::
  "(real \<Rightarrow> real \<Rightarrow> real \<Rightarrow> real \<Rightarrow> error + real) \<Rightarrow>
   real \<Rightarrow> real \<Rightarrow> real \<Rightarrow> real \<Rightarrow> int \<Rightarrow> int \<Rightarrow> error + real" where
  "Ft_aircooler LMTD Thi Tho Tci Tco Ntp rows =
     (case LMTD Thi Tho Tci Tco of
        Inl e \<Rightarrow> Inl e
      | Inr dTlm \<Rightarrow>
     (case float_div dTlm (Thi - Tci) of
        Inl e \<Rightarrow> Inl e
      | Inr rlm \<Rightarrow>
     (case float_div (Thi - Tho) (Tco - Tci) of
        Inl e \<Rightarrow> Inl e
      | Inr R \<Rightarrow>
          (let coefs = Ft_aircooler_coefs Ntp rows;
               atanR = arctan R;
               cmps = [0..<length coefs]
           in case Ft_outer_loop coefs rlm atanR cmps cmps 0 of
                Inl e \<Rightarrow> Inl e
              | Inr tot \<Rightarrow> Inr (1 - tot)))))"

text \<open>
  The signature \<^verbatim>\<open>def Ft_aircooler(Thi, Tho, Tci, Tco, Ntp=1, rows=1)\<close>: an argument
  the caller leaves out is \<open>None\<close> and takes the default of the signature.
\<close>

definition Ft_aircooler_call ::
  "(real \<Rightarrow> real \<Rightarrow> real \<Rightarrow> real \<Rightarrow> error + real) \<Rightarrow>
   real \<Rightarrow> real \<Rightarrow> real \<Rightarrow> real \<Rightarrow> int option \<Rightarrow> int option \<Rightarrow> error + real" where
  "Ft_aircooler_call LMTD Thi Tho Tci Tco Ntp rows =
     Ft_aircooler LMTD Thi Tho Tci Tco
       (case Ntp of None \<Rightarrow> 1 | Some n \<Rightarrow> n)
       (case rows of None \<Rightarrow> 1 | Some r \<Rightarrow> r)"

text \<open>
  The series of the docstring and of the specification, for a table \<open>coefs\<close>:
  1 minus the double sum over k and i in 0..3.
\<close>

definition Ft_series :: "real list list \<Rightarrow> real \<Rightarrow> real \<Rightarrow> real" where
  "Ft_series coefs rlm R =
     1 - (\<Sum>k<4. \<Sum>i<4. coefs ! k ! i * (1 - rlm) ^ (k + 1) * sin (2 * (real i + 1) * arctan R))"

section \<open>Fan noise\<close>

text \<open>
  \<^verbatim>\<open>air_cooler_noise_GPSA(tip_speed, power)\<close>. The argument \<^verbatim>\<open>power\<close> is
  \<open>power_W\<close> here, and \<open>power_hp\<close> after the source rebinds it to \<^verbatim>\<open>power/hp\<close>.
\<close>

definition air_cooler_noise_GPSA :: "real \<Rightarrow> real \<Rightarrow> error + real" where
  "air_cooler_noise_GPSA tip_speed power_W =
     (let tip_speed = tip_speed * minute
      in case float_div power_W hp of
           Inl e \<Rightarrow> Inl e
         | Inr power_hp \<Rightarrow>
        (case float_div tip_speed 304.8 of
           Inl e \<Rightarrow> Inl e
         | Inr q \<Rightarrow>
        (case math_log10 q of
           Inl e \<Rightarrow> Inl e
         | Inr l1 \<Rightarrow>
        (case math_log10 power_hp of
           Inl e \<Rightarrow> Inl e
         | Inr l2 \<Rightarrow> Inr (56 + 30 * l1 + 10 * l2)))))"

text \<open>\<^verbatim>\<open>air_cooler_noise_Mukherjee(tip_speed, power, fan_diameter, induced)\<close>.\<close>

definition air_cooler_noise_Mukherjee :: "real \<Rightarrow> real \<Rightarrow> real \<Rightarrow> bool \<Rightarrow> error + real" where
  "air_cooler_noise_Mukherjee tip_speed power_W fan_diameter induced =
     (case math_log10 tip_speed of
        Inl e \<Rightarrow> Inl e
      | Inr l1 \<Rightarrow>
     (case float_div power_W hp of
        Inl e \<Rightarrow> Inl e
      | Inr power_hp \<Rightarrow>
     (case math_log10 power_hp of
        Inl e \<Rightarrow> Inl e
      | Inr l2 \<Rightarrow>
     (case math_log10 fan_diameter of
        Inl e \<Rightarrow> Inl e
      | Inr l3 \<Rightarrow>
          (let noise = 46 + 30 * l1 + 10 * l2 - 20 * l3
           in if induced then Inr (noise - 3) else Inr noise)))))"

section \<open>Finned-tube heat transfer coefficients\<close>

text \<open>
  \<^verbatim>\<open>h_Briggs_Young\<close> and \<^verbatim>\<open>h_ESDU_highfin_staggered\<close> call three helpers that
  are not part of the module: \<^verbatim>\<open>Reynolds(V, D, rho, mu)\<close> and
  \<^verbatim>\<open>Prandtl(Cp, mu, k)\<close> of the package \<^verbatim>\<open>fluids\<close>, and
  \<^verbatim>\<open>fin_efficiency_Kern_Kraus(Do, D_fin, t_fin, k_fin, h)\<close> of \<^verbatim>\<open>ht.core\<close>. They
  are the first three arguments here, each a function that returns a number or raises.
  The steps follow Python's evaluation order, so that the first primitive that raises
  decides the error. The variable \<^verbatim>\<open>Re\<close> of the source is \<open>Re'\<close> here.
\<close>

definition h_Briggs_Young ::
  "(real \<Rightarrow> real \<Rightarrow> real \<Rightarrow> real \<Rightarrow> error + real) \<Rightarrow>
   (real \<Rightarrow> real \<Rightarrow> real \<Rightarrow> error + real) \<Rightarrow>
   (real \<Rightarrow> real \<Rightarrow> real \<Rightarrow> real \<Rightarrow> real \<Rightarrow> error + real) \<Rightarrow>
   real \<Rightarrow> real \<Rightarrow> real \<Rightarrow> real \<Rightarrow> real \<Rightarrow> real \<Rightarrow> real \<Rightarrow> real \<Rightarrow> real \<Rightarrow> real \<Rightarrow>
   real \<Rightarrow> real \<Rightarrow> real \<Rightarrow> real \<Rightarrow> real \<Rightarrow> error + real" where
  "h_Briggs_Young Reynolds Prandtl fin_efficiency_Kern_Kraus
       m A A_min A_increase A_fin A_tube_showing tube_diameter fin_diameter fin_thickness
       bare_length rho Cp mu k k_fin =
     (let fin_height = 0.5 * (fin_diameter - tube_diameter)
      in case float_div m (A_min * rho) of Inl e \<Rightarrow> Inl e | Inr V_max \<Rightarrow>
        (case Reynolds V_max tube_diameter rho mu of Inl e \<Rightarrow> Inl e | Inr Re' \<Rightarrow>
        (case Prandtl Cp mu k of Inl e \<Rightarrow> Inl e | Inr Pr \<Rightarrow>
        (case float_pow Re' 0.681 of Inl e \<Rightarrow> Inl e | Inr p1 \<Rightarrow>
        (case float_pow Pr (1 / 3) of Inl e \<Rightarrow> Inl e | Inr p2 \<Rightarrow>
        (case float_div bare_length fin_height of Inl e \<Rightarrow> Inl e | Inr q1 \<Rightarrow>
        (case float_pow q1 0.2 of Inl e \<Rightarrow> Inl e | Inr p3 \<Rightarrow>
        (case float_div bare_length fin_thickness of Inl e \<Rightarrow> Inl e | Inr q2 \<Rightarrow>
        (case float_pow q2 0.1134 of Inl e \<Rightarrow> Inl e | Inr p4 \<Rightarrow>
        (let Nu = 0.134 * p1 * p2 * p3 * p4
         in case float_div k tube_diameter of Inl e \<Rightarrow> Inl e | Inr q3 \<Rightarrow>
        (let h = q3 * Nu
         in case fin_efficiency_Kern_Kraus tube_diameter fin_diameter fin_thickness k_fin h of
              Inl e \<Rightarrow> Inl e
            | Inr efficiency \<Rightarrow>
        (case float_div (efficiency * A_fin + A_tube_showing) A of
           Inl e \<Rightarrow> Inl e
         | Inr q4 \<Rightarrow>
        (let h_total_area_basis = q4 * h;
             h_bare_tube_basis = h_total_area_basis * A_increase
         in Inr h_bare_tube_basis)))))))))))))"

definition h_ESDU_highfin_staggered ::
  "(real \<Rightarrow> real \<Rightarrow> real \<Rightarrow> real \<Rightarrow> error + real) \<Rightarrow>
   (real \<Rightarrow> real \<Rightarrow> real \<Rightarrow> error + real) \<Rightarrow>
   (real \<Rightarrow> real \<Rightarrow> real \<Rightarrow> real \<Rightarrow> real \<Rightarrow> error + real) \<Rightarrow>
   real \<Rightarrow> real \<Rightarrow> real \<Rightarrow> real \<Rightarrow> real \<Rightarrow> real \<Rightarrow> real \<Rightarrow> real \<Rightarrow> real \<Rightarrow> real \<Rightarrow>
   real \<Rightarrow> real \<Rightarrow> real \<Rightarrow> real \<Rightarrow> real \<Rightarrow> real \<Rightarrow> real \<Rightarrow> error + real" where
  "h_ESDU_highfin_staggered Reynolds Prandtl fin_efficiency_Kern_Kraus
       m A A_min A_increase A_fin A_tube_showing tube_diameter fin_diameter fin_thickness
       bare_length pitch_parallel pitch_normal rho Cp mu k k_fin =
     (let fin_height = 0.5 * (fin_diameter - tube_diameter)
      in case float_div m (A_min * rho) of Inl e \<Rightarrow> Inl e | Inr V_max \<Rightarrow>
        (case Reynolds V_max tube_diameter rho mu of Inl e \<Rightarrow> Inl e | Inr Re' \<Rightarrow>
        (case Prandtl Cp mu k of Inl e \<Rightarrow> Inl e | Inr Pr \<Rightarrow>
        (case float_pow Re' 0.658 of Inl e \<Rightarrow> Inl e | Inr p1 \<Rightarrow>
        (case float_div bare_length fin_height of Inl e \<Rightarrow> Inl e | Inr q1 \<Rightarrow>
        (case float_pow q1 0.297 of Inl e \<Rightarrow> Inl e | Inr p2 \<Rightarrow>
        (case float_div pitch_normal pitch_parallel of Inl e \<Rightarrow> Inl e | Inr q2 \<Rightarrow>
        (case float_pow q2 (- 0.091) of Inl e \<Rightarrow> Inl e | Inr p3 \<Rightarrow>
        (case float_pow Pr (1 / 3) of Inl e \<Rightarrow> Inl e | Inr p4 \<Rightarrow>
        (let Nu = 0.242 * p1 * p2 * p3 * p4
         in case float_div k tube_diameter of Inl e \<Rightarrow> Inl e | Inr q3 \<Rightarrow>
        (let h = q3 * Nu
         in case fin_efficiency_Kern_Kraus tube_diameter fin_diameter fin_thickness k_fin h of
              Inl e \<Rightarrow> Inl e
            | Inr efficiency \<Rightarrow>
        (case float_div (efficiency * A_fin + A_tube_showing) A of
           Inl e \<Rightarrow> Inl e
         | Inr q4 \<Rightarrow>
        (let h_total_area_basis = q4 * h;
             h_bare_tube_basis = h_total_area_basis * A_increase
         in Inr h_bare_tube_basis)))))))))))))"

section \<open>Collaborators outside the module\<close>

text \<open>
  Modelled from the spec: \<^verbatim>\<open>LMTD\<close> of \<^verbatim>\<open>ht.core\<close> is not among the sources. The
  specification names it the log-mean temperature difference assuming counterflow: with
  the terminal differences \<open>dTF1 = Thi - Tco\<close> and \<open>dTF2 = Tho - Tci\<close> it is
  \<open>(dTF2 - dTF1) / ln (dTF2 / dTF1)\<close>, computed with the primitives above.
\<close>

definition LMTD_counterflow :: "real \<Rightarrow> real \<Rightarrow> real \<Rightarrow> real \<Rightarrow> error + real" where
  "LMTD_counterflow Thi Tho Tci Tco =
     (let dTF1 = Thi - Tco;
          dTF2 = Tho - Tci
      in case float_div dTF2 dTF1 of Inl e \<Rightarrow> Inl e | Inr q \<Rightarrow>
        (case math_log q of Inl e \<Rightarrow> Inl e | Inr l \<Rightarrow> float_div (dTF2 - dTF1) l))"

text \<open>
  Modelled from the spec: \<^verbatim>\<open>Reynolds\<close> and \<^verbatim>\<open>Prandtl\<close> of the package
  \<^verbatim>\<open>fluids\<close> and the Kern-Kraus fin efficiency of \<^verbatim>\<open>ht.core\<close> are not among the
  sources; the specification treats them as given numeric functions. The instances
  below are the textbook groups \<open>V D rho / mu\<close> and \<open>Cp mu / k\<close>, and an ideal fin of
  efficiency 1, a value of the interval (0, 1] that the specification gives for the
  efficiency. They only serve to instantiate the theorems on concrete inputs.
\<close>

definition Reynolds_group :: "real \<Rightarrow> real \<Rightarrow> real \<Rightarrow> real \<Rightarrow> error + real" where
  "Reynolds_group V D rho mu = float_div (V * D * rho) mu"

definition Prandtl_group :: "real \<Rightarrow> real \<Rightarrow> real \<Rightarrow> error + real" where
  "Prandtl_group Cp mu k = float_div (Cp * mu) k"

definition fin_efficiency_ideal :: "real \<Rightarrow> real \<Rightarrow> real \<Rightarrow> real \<Rightarrow> real \<Rightarrow> error + real" where
  "fin_efficiency_ideal Do D_fin t_fin k_fin h = Inr 1"

section \<open>The loops of the correction factor\<close>

lemma float_pow_Suc: "float_pow x (real k + 1) = Inr (x ^ (k + 1))"
proof -
  have fl: "\<lfloor>real k + 1\<rfloor> = int (k + 1)"
    by linarith
  show ?thesis
    unfolding float_pow_def fl power_int_of_nat by simp
qed

lemma Ft_inner_loop_sum:
  "Ft_inner_loop row x0 atanR js tot =
     tot + (\<Sum>i\<leftarrow>js. row ! i * x0 * sin (2 * (real i + 1) * atanR))"
  by (induction js arbitrary: tot) simp_all

lemma Ft_outer_loop_sum:
  "Ft_outer_loop coefs rlm atanR cmps ks tot =
     Inr (tot + (\<Sum>k\<leftarrow>ks. \<Sum>i\<leftarrow>cmps. coefs ! k ! i * (1 - rlm) ^ (k + 1) * sin (2 * (real i + 1) * atanR)))"
  by (induction ks arbitrary: tot) (simp_all add: float_pow_Suc Ft_inner_loop_sum del: power_Suc)

lemmas crossflow_defs = crossflow_1_row_1_pass_def crossflow_2_rows_1_pass_def
      crossflow_3_rows_1_pass_def crossflow_4_rows_1_pass_def crossflow_2_rows_2_pass_def
      crossflow_3_rows_3_pass_def crossflow_4_rows_4_pass_def crossflow_4_rows_2_pass_def

lemma Ft_aircooler_coefs_length: "length (Ft_aircooler_coefs Ntp rows) = 4"
  by (simp add: Ft_aircooler_coefs_def crossflow_defs)

lemma sum_list_upt4: "(\<Sum>k\<leftarrow>[0..<4]. f k) = (\<Sum>k<4. (f k :: real))"
  using sum_list_distinct_conv_sum_set[of "[0..<4]" f] by (simp add: atLeast0LessThan)

lemma Ft_loops_series:
  "Ft_outer_loop coefs rlm (arctan R) [0..<4] [0..<4] 0 = Inr (1 - Ft_series coefs rlm R)"
  by (simp only: Ft_outer_loop_sum Ft_series_def sum_list_upt4) simp

lemma Ft_aircooler_defined:
  assumes "LMTD Thi Tho Tci Tco = Inr dTlm" "Thi \<noteq> Tci" "Tco \<noteq> Tci"
  shows "Ft_aircooler LMTD Thi Tho Tci Tco Ntp rows =
     Inr (Ft_series (Ft_aircooler_coefs Ntp rows) (dTlm / (Thi - Tci)) ((Thi - Tho) / (Tco - Tci)))"
  using assms
  by (simp add: Ft_aircooler_def float_div_def Let_def Ft_loops_series Ft_aircooler_coefs_length)

lemma Ft_aircooler_undefined:
  assumes "Thi = Tci \<or> Tco = Tci"
  shows "Ft_aircooler LMTD Thi Tho Tci Tco Ntp rows =
     (case LMTD Thi Tho Tci Tco of Inl e \<Rightarrow> Inl e | Inr dTlm \<Rightarrow> Inl ZeroDivisionError)"
  using assms
  by (auto simp add: Ft_aircooler_def float_div_def split: sum.splits)

lemma LMTD_counterflow_example: "LMTD_counterflow 125 45 25 95 = Inr (10 / ln (3 / 2))"
proof -
  have "ln (2 / 3 :: real) = - ln (3 / 2)"
    using ln_div [of 2 3] ln_div [of 3 2] by simp
  then show ?thesis
    by (simp add: LMTD_counterflow_def float_div_def math_log_def Let_def)
qed

lemma LMTD_counterflow_example2: "LMTD_counterflow 125 45 25 25 = Inr (80 / ln 5)"
proof -
  have "ln (1 / 5 :: real) = - ln 5"
    using ln_div [of 1 5] by simp
  then show ?thesis
    by (simp add: LMTD_counterflow_def float_div_def math_log_def Let_def)
qed

section \<open>Claims about the correction factor\<close>

text \<open>
  C1. Whenever the arithmetic before the loops is defined (\<^verbatim>\<open>LMTD\<close> returns
  \<open>dTlm\<close>, and neither \<open>Thi - Tci\<close> nor \<open>Tco - Tci\<close> is zero), \<^verbatim>\<open>Ft_aircooler\<close>
  returns 1 minus the double sum over k = 0..3 and i = 0..3 of
  \<open>coefs[k][i] * (1 - rlm)^(k+1) * sin (2 (i+1) atan R)\<close>, with
  \<open>rlm = dTlm / (Thi - Tci)\<close>, \<open>R = (Thi - Tho) / (Tco - Tci)\<close> and \<open>coefs\<close> the
  selected table.
\<close>

theorem Ft_aircooler_series:
  assumes "LMTD Thi Tho Tci Tco = Inr dTlm" and "Thi \<noteq> Tci" and "Tco \<noteq> Tci"
  shows "Ft_aircooler LMTD Thi Tho Tci Tco Ntp rows =
     Inr (1 - (\<Sum>k<4. \<Sum>i<4. Ft_aircooler_coefs Ntp rows ! k ! i
                 * (1 - dTlm / (Thi - Tci)) ^ (k + 1)
                 * sin (2 * (real i + 1) * arctan ((Thi - Tho) / (Tco - Tci)))))"
proof -
  have "Ft_aircooler LMTD Thi Tho Tci Tco Ntp rows =
     Inr (Ft_series (Ft_aircooler_coefs Ntp rows) (dTlm / (Thi - Tci)) ((Thi - Tho) / (Tco - Tci)))"
    using assms Ft_aircooler_defined [of LMTD Thi Tho Tci Tco dTlm Ntp rows] by blast
  then show ?thesis
    unfolding Ft_series_def .
qed

theorem Ft_aircooler_series_witness:
  "Ft_aircooler LMTD_counterflow 125 45 25 95 1 4 =
     Inr (1 - (\<Sum>k<4. \<Sum>i<4. crossflow_4_rows_1_pass ! k ! i
                 * (1 - 10 / ln (3 / 2) / 100) ^ (k + 1)
                 * sin (2 * (real i + 1) * arctan (8 / 7))))"
proof -
  have c: "Ft_aircooler_coefs 1 4 = crossflow_4_rows_1_pass"
    by (simp add: Ft_aircooler_coefs_def)
  have "Ft_aircooler LMTD_counterflow 125 45 25 95 1 4 =
     Inr (1 - (\<Sum>k<4. \<Sum>i<4. Ft_aircooler_coefs 1 4 ! k ! i
                 * (1 - 10 / ln (3 / 2) / (125 - 25)) ^ (k + 1)
                 * sin (2 * (real i + 1) * arctan ((125 - 45) / (95 - 25)))))"
    using LMTD_counterflow_example
      Ft_aircooler_series [of LMTD_counterflow 125 45 25 95 "10 / ln (3 / 2)" 1 4]
    by simp
  then show ?thesis
    unfolding c by simp
qed

text \<open>
  C2. For positive \<open>Ntp\<close> and \<open>rows\<close> the selection gives the tabulated table for
  each of the eight tabulated pairs, the (1,4) table for \<open>Ntp = 1\<close> and \<open>rows > 4\<close>,
  the (4,4) table for \<open>Ntp = rows > 4\<close>, and the (2,4) table for every other pair. The
  selection never fails: whenever the arithmetic on the temperatures is defined, the
  call returns the series on the selected table. In particular the result for
  \<open>Ntp = 1, rows = 5\<close> is that for \<open>Ntp = 1, rows = 4\<close>, and \<open>Ntp = 5, rows = 5\<close>
  uses the (4,4) table.
\<close>

theorem Ft_aircooler_table_selection:
  assumes "0 < Ntp" and "0 < rows"
  shows "Ft_aircooler_coefs 1 1 = crossflow_1_row_1_pass
     \<and> Ft_aircooler_coefs 1 2 = crossflow_2_rows_1_pass
     \<and> Ft_aircooler_coefs 1 3 = crossflow_3_rows_1_pass
     \<and> Ft_aircooler_coefs 1 4 = crossflow_4_rows_1_pass
     \<and> Ft_aircooler_coefs 2 2 = crossflow_2_rows_2_pass
     \<and> Ft_aircooler_coefs 3 3 = crossflow_3_rows_3_pass
     \<and> Ft_aircooler_coefs 4 4 = crossflow_4_rows_4_pass
     \<and> Ft_aircooler_coefs 2 4 = crossflow_4_rows_2_pass
     \<and> (Ntp = 1 \<and> rows > 4 \<longrightarrow> Ft_aircooler_coefs Ntp rows = crossflow_4_rows_1_pass)
     \<and> (Ntp > 4 \<and> rows > 4 \<and> Ntp = rows \<longrightarrow>
          Ft_aircooler_coefs Ntp rows = crossflow_4_rows_4_pass)
     \<and> ((Ntp, rows) \<notin> {(1, 1), (1, 2), (1, 3), (1, 4), (2, 2), (3, 3), (4, 4), (2, 4)}
          \<and> \<not> (Ntp = 1 \<and> rows > 4) \<and> \<not> (Ntp > 4 \<and> rows > 4 \<and> Ntp = rows) \<longrightarrow>
          Ft_aircooler_coefs Ntp rows = crossflow_4_rows_2_pass)
     \<and> (LMTD Thi Tho Tci Tco = Inr dTlm \<and> Thi \<noteq> Tci \<and> Tco \<noteq> Tci \<longrightarrow>
          Ft_aircooler LMTD Thi Tho Tci Tco Ntp rows =
            Inr (Ft_series (Ft_aircooler_coefs Ntp rows)
                   (dTlm / (Thi - Tci)) ((Thi - Tho) / (Tco - Tci))))
     \<and> Ft_aircooler LMTD Thi Tho Tci Tco 1 5 = Ft_aircooler LMTD Thi Tho Tci Tco 1 4
     \<and> Ft_aircooler_coefs 5 5 = crossflow_4_rows_4_pass"
proof -
  have exact: "Ft_aircooler_coefs 1 1 = crossflow_1_row_1_pass"
    "Ft_aircooler_coefs 1 2 = crossflow_2_rows_1_pass"
    "Ft_aircooler_coefs 1 3 = crossflow_3_rows_1_pass"
    "Ft_aircooler_coefs 1 4 = crossflow_4_rows_1_pass"
    "Ft_aircooler_coefs 2 2 = crossflow_2_rows_2_pass"
    "Ft_aircooler_coefs 3 3 = crossflow_3_rows_3_pass"
    "Ft_aircooler_coefs 4 4 = crossflow_4_rows_4_pass"
    "Ft_aircooler_coefs 2 4 = crossflow_4_rows_2_pass"
    "Ft_aircooler_coefs 5 5 = crossflow_4_rows_4_pass"
    by (simp_all add: Ft_aircooler_coefs_def)
  have more_rows_5: "Ft_aircooler_coefs 1 5 = crossflow_4_rows_1_pass"
    by (simp add: Ft_aircooler_coefs_def)
  have more_rows: "Ntp = 1 \<and> rows > 4 \<longrightarrow> Ft_aircooler_coefs Ntp rows = crossflow_4_rows_1_pass"
    by (simp add: Ft_aircooler_coefs_def)
  have more_both: "Ntp > 4 \<and> rows > 4 \<and> Ntp = rows \<longrightarrow>
      Ft_aircooler_coefs Ntp rows = crossflow_4_rows_4_pass"
    by (simp add: Ft_aircooler_coefs_def)
  have other: "(Ntp, rows) \<notin> {(1, 1), (1, 2), (1, 3), (1, 4), (2, 2), (3, 3), (4, 4), (2, 4)}
      \<and> \<not> (Ntp = 1 \<and> rows > 4) \<and> \<not> (Ntp > 4 \<and> rows > 4 \<and> Ntp = rows) \<longrightarrow>
      Ft_aircooler_coefs Ntp rows = crossflow_4_rows_2_pass"
    by (simp add: Ft_aircooler_coefs_def)
  have returns: "LMTD Thi Tho Tci Tco = Inr dTlm \<and> Thi \<noteq> Tci \<and> Tco \<noteq> Tci \<longrightarrow>
      Ft_aircooler LMTD Thi Tho Tci Tco Ntp rows =
        Inr (Ft_series (Ft_aircooler_coefs Ntp rows)
               (dTlm / (Thi - Tci)) ((Thi - Tho) / (Tco - Tci)))"
    using Ft_aircooler_defined [of LMTD Thi Tho Tci Tco dTlm Ntp rows] by blast
  have same: "Ft_aircooler LMTD Thi Tho Tci Tco 1 5 = Ft_aircooler LMTD Thi Tho Tci Tco 1 4"
    unfolding Ft_aircooler_def
    by (simp only: exact(4) more_rows_5)
  show ?thesis
    using exact more_rows more_both other returns same by blast
qed

theorem Ft_aircooler_table_selection_witness:
  "Ft_aircooler_coefs 1 5 = crossflow_4_rows_1_pass
     \<and> Ft_aircooler_coefs 5 5 = crossflow_4_rows_4_pass
     \<and> Ft_aircooler_coefs 3 5 = crossflow_4_rows_2_pass
     \<and> Ft_aircooler LMTD_counterflow 125 45 25 95 3 5 =
         Inr (Ft_series crossflow_4_rows_2_pass (10 / ln (3 / 2) / 100) (8 / 7))"
proof -
  have a: "Ft_aircooler_coefs 1 5 = crossflow_4_rows_1_pass"
    using Ft_aircooler_table_selection [of 1 5] by simp
  have b: "Ft_aircooler_coefs 5 5 = crossflow_4_rows_4_pass"
    using Ft_aircooler_table_selection [of 5 5] by simp
  have c: "Ft_aircooler_coefs 3 5 = crossflow_4_rows_2_pass"
    using Ft_aircooler_table_selection [of 3 5] by simp
  have d: "Ft_aircooler LMTD_counterflow 125 45 25 95 3 5 =
      Inr (Ft_series (Ft_aircooler_coefs 3 5) (10 / ln (3 / 2) / (125 - 25)) ((125 - 45) / (95 - 25)))"
    using LMTD_counterflow_example
      Ft_aircooler_table_selection [of 3 5 LMTD_counterflow 125 45 25 95 "10 / ln (3 / 2)"]
    by simp
  show ?thesis
    using a b c d by simp
qed

text \<open>
  C10. \<open>Ntp\<close> and \<open>rows\<close> default to 1: a call with the four temperatures only is
  the call with \<open>Ntp = 1\<close> and \<open>rows = 1\<close>, which selects the 1-row-1-pass table and,
  where the arithmetic is defined, returns the series on that table.
\<close>

theorem Ft_aircooler_defaults:
  "Ft_aircooler_call LMTD Thi Tho Tci Tco None None = Ft_aircooler LMTD Thi Tho Tci Tco 1 1
   \<and> Ft_aircooler_call LMTD Thi Tho Tci Tco (Some Ntp) None = Ft_aircooler LMTD Thi Tho Tci Tco Ntp 1
   \<and> Ft_aircooler_call LMTD Thi Tho Tci Tco None (Some rows) = Ft_aircooler LMTD Thi Tho Tci Tco 1 rows
   \<and> Ft_aircooler_coefs 1 1 = crossflow_1_row_1_pass
   \<and> (LMTD Thi Tho Tci Tco = Inr dTlm \<and> Thi \<noteq> Tci \<and> Tco \<noteq> Tci \<longrightarrow>
        Ft_aircooler_call LMTD Thi Tho Tci Tco None None =
          Inr (Ft_series crossflow_1_row_1_pass (dTlm / (Thi - Tci)) ((Thi - Tho) / (Tco - Tci))))"
proof -
  have c: "Ft_aircooler_coefs 1 1 = crossflow_1_row_1_pass"
    by (simp add: Ft_aircooler_coefs_def)
  show ?thesis
    using Ft_aircooler_defined [of LMTD Thi Tho Tci Tco dTlm 1 1]
    by (simp add: Ft_aircooler_call_def c)
qed

theorem Ft_aircooler_defaults_witness:
  "Ft_aircooler_call LMTD_counterflow 125 45 25 95 None None =
     Inr (Ft_series crossflow_1_row_1_pass (10 / ln (3 / 2) / 100) (8 / 7))"
proof -
  have "LMTD_counterflow 125 45 25 95 = Inr (10 / ln (3 / 2)) \<and> (125 :: real) \<noteq> 25
      \<and> (95 :: real) \<noteq> 25"
    using LMTD_counterflow_example by simp
  then have "Ft_aircooler_call LMTD_counterflow 125 45 25 95 None None =
      Inr (Ft_series crossflow_1_row_1_pass (10 / ln (3 / 2) / (125 - 25)) ((125 - 45) / (95 - 25)))"
    using Ft_aircooler_defaults [of LMTD_counterflow 125 45 25 95 1 1 "10 / ln (3 / 2)"]
    by blast
  then show ?thesis
    by simp
qed

text \<open>
  C3, as amended. For \<open>Tco = Tci\<close> there is no special case and no result: the call
  raises. It raises what \<^verbatim>\<open>LMTD\<close> raises if \<^verbatim>\<open>LMTD\<close> raises, and otherwise the
  ZeroDivisionError of a division (that of \<open>rlm\<close> when also \<open>Thi = Tci\<close>, else that of
  \<open>R\<close>). The claim as stated, that an infinite or NaN value is returned, fails at
  \<open>Thi = 125, Tho = 45, Tci = Tco = 25\<close>.
\<close>

theorem Ft_aircooler_equal_cold_temperatures:
  assumes "Tco = Tci"
  shows "Ft_aircooler LMTD Thi Tho Tci Tco Ntp rows =
     (case LMTD Thi Tho Tci Tco of Inl e \<Rightarrow> Inl e | Inr dTlm \<Rightarrow> Inl ZeroDivisionError)"
  using assms Ft_aircooler_undefined [of Thi Tci Tco LMTD Tho Ntp rows] by blast

theorem Ft_aircooler_equal_cold_temperatures_witness:
  "Ft_aircooler LMTD_counterflow 300 200 25 25 2 2 = Inl ZeroDivisionError"
proof -
  have "ln (7 / 11 :: real) \<noteq> 0"
    by simp
  then have "LMTD_counterflow 300 200 25 25 = Inr (- 100 / ln (7 / 11))"
    by (simp add: LMTD_counterflow_def float_div_def math_log_def Let_def)
  then show ?thesis
    using Ft_aircooler_equal_cold_temperatures [of 25 25 LMTD_counterflow 300 200 2 2] by simp
qed

theorem Ft_aircooler_equal_cold_temperatures_counterexample:
  "Ft_aircooler LMTD_counterflow 125 45 25 25 1 4 = Inl ZeroDivisionError"
  using LMTD_counterflow_example2
  by (simp add: Ft_aircooler_def float_div_def)

section \<open>Claims about the fan noise and the finned-tube coefficients\<close>

lemma hp_pos: "0 < hp"
  by (simp add: hp_def)

lemma float_pow_nonneg:
  assumes "0 \<le> x" and "0 < y" and "real_of_int \<lfloor>y\<rfloor> \<noteq> y"
  shows "float_pow x y = Inr (x powr y)"
  using assms by (simp add: float_pow_def)

lemma float_pow_pos:
  assumes "0 < x" and "real_of_int \<lfloor>y\<rfloor> \<noteq> y"
  shows "float_pow x y = Inr (x powr y)"
  using assms by (simp add: float_pow_def)

text \<open>
  C5. For positive tip speed, power and fan diameter, \<^verbatim>\<open>air_cooler_noise_Mukherjee\<close>
  returns \<open>46 + 30 log10 tip_speed + 10 log10 (power / hp) - 20 log10 fan_diameter\<close>
  when \<open>induced\<close> is false, and exactly 3 less when \<open>induced\<close> is true.
\<close>

theorem air_cooler_noise_Mukherjee_formula:
  assumes "0 < tip_speed" and "0 < power_W" and "0 < fan_diameter"
  shows "air_cooler_noise_Mukherjee tip_speed power_W fan_diameter False =
       Inr (46 + 30 * log 10 tip_speed + 10 * log 10 (power_W / hp) - 20 * log 10 fan_diameter)
     \<and> air_cooler_noise_Mukherjee tip_speed power_W fan_diameter True =
       Inr (46 + 30 * log 10 tip_speed + 10 * log 10 (power_W / hp) - 20 * log 10 fan_diameter - 3)"
proof -
  have "\<not> power_W / hp \<le> 0"
    using assms(2) hp_pos by (simp add: not_le)
  then show ?thesis
    using assms hp_pos by (simp add: air_cooler_noise_Mukherjee_def float_div_def math_log10_def)
qed

theorem air_cooler_noise_Mukherjee_formula_witness:
  "air_cooler_noise_Mukherjee 10 (10 * hp) 10 False = Inr 66
   \<and> air_cooler_noise_Mukherjee 10 (10 * hp) 10 True = Inr 63"
proof -
  have "0 < 10 * hp"
    using hp_pos by simp
  then show ?thesis
    using air_cooler_noise_Mukherjee_formula [of 10 "10 * hp" 10] hp_pos by simp
qed

text \<open>
  C6. Where the arithmetic is defined, \<^verbatim>\<open>h_Briggs_Young\<close> computes
  \<open>fin_height = 0.5 (fin_diameter - tube_diameter)\<close>, \<open>V_max = m / (A_min rho)\<close>, the
  Reynolds and Prandtl numbers through the collaborators,
  \<open>Nu = 0.134 Re^0.681 Pr^(1/3) (bare_length / fin_height)^0.2
  (bare_length / fin_thickness)^0.1134\<close>, \<open>h = k / tube_diameter * Nu\<close>, the Kern-Kraus
  efficiency at \<open>h\<close>, and returns
  \<open>((efficiency * A_fin + A_tube_showing) / A * h) * A_increase\<close>. The arithmetic is
  defined when no divisor is zero, the collaborators return, and the bases of the
  fractional powers are not negative.
\<close>

theorem h_Briggs_Young_formula:
  fixes m A A_min A_increase A_fin A_tube_showing tube_diameter fin_diameter fin_thickness
    bare_length rho Cp mu k k_fin Re' Pr efficiency :: real
  defines "fin_height \<equiv> 0.5 * (fin_diameter - tube_diameter)"
  defines "V_max \<equiv> m / (A_min * rho)"
  defines "Nu \<equiv> 0.134 * Re' powr 0.681 * Pr powr (1 / 3) * (bare_length / fin_height) powr 0.2
                  * (bare_length / fin_thickness) powr 0.1134"
  defines "h \<equiv> k / tube_diameter * Nu"
  assumes "A_min * rho \<noteq> 0" and "fin_height \<noteq> 0" and "fin_thickness \<noteq> 0"
    and "tube_diameter \<noteq> 0" and "A \<noteq> 0"
    and "Reynolds V_max tube_diameter rho mu = Inr Re'" and "0 \<le> Re'"
    and "Prandtl Cp mu k = Inr Pr" and "0 \<le> Pr"
    and "0 \<le> bare_length / fin_height" and "0 \<le> bare_length / fin_thickness"
    and "fin_efficiency_Kern_Kraus tube_diameter fin_diameter fin_thickness k_fin h = Inr efficiency"
  shows "h_Briggs_Young Reynolds Prandtl fin_efficiency_Kern_Kraus
           m A A_min A_increase A_fin A_tube_showing tube_diameter fin_diameter fin_thickness
           bare_length rho Cp mu k k_fin =
         Inr ((efficiency * A_fin + A_tube_showing) / A * h * A_increase)"
proof -
  have p1: "float_pow Re' 0.681 = Inr (Re' powr 0.681)"
    using assms by (intro float_pow_nonneg) simp_all
  have p2: "float_pow Pr (1 / 3) = Inr (Pr powr (1 / 3))"
    using assms by (intro float_pow_nonneg) simp_all
  have p3: "float_pow (bare_length / fin_height) 0.2 = Inr ((bare_length / fin_height) powr 0.2)"
    using assms by (intro float_pow_nonneg) simp_all
  have p4: "float_pow (bare_length / fin_thickness) 0.1134 =
      Inr ((bare_length / fin_thickness) powr 0.1134)"
    using assms by (intro float_pow_nonneg) simp_all
  have d1: "float_div m (A_min * rho) = Inr V_max"
    using assms by (simp add: float_div_def)
  have d2: "float_div bare_length (0.5 * (fin_diameter - tube_diameter)) = Inr (bare_length / fin_height)"
    using assms by (simp add: float_div_def)
  have d3: "float_div bare_length fin_thickness = Inr (bare_length / fin_thickness)"
    using assms by (simp add: float_div_def)
  have d4: "float_div k tube_diameter = Inr (k / tube_diameter)"
    using assms by (simp add: float_div_def)
  have d5: "float_div (efficiency * A_fin + A_tube_showing) A =
      Inr ((efficiency * A_fin + A_tube_showing) / A)"
    using assms by (simp add: float_div_def)
  have e: "fin_efficiency_Kern_Kraus tube_diameter fin_diameter fin_thickness k_fin
      (k / tube_diameter * (0.134 * Re' powr 0.681 * Pr powr (1 / 3)
        * (bare_length / fin_height) powr 0.2 * (bare_length / fin_thickness) powr 0.1134))
      = Inr efficiency"
    using assms by simp
  show ?thesis
    unfolding h_Briggs_Young_def Let_def d1 sum.case assms(10) assms(12) p1 p2 d2 p3 d3 p4 d4 e d5
    by (simp add: h_def Nu_def)
qed

theorem h_Briggs_Young_formula_witness:
  "h_Briggs_Young Reynolds_group Prandtl_group fin_efficiency_ideal
     2 1 1 2 1 1 1 3 1 1 1 1 1 1 1 =
   Inr ((1 * 1 + 1) / 1 * (1 / 1 * (0.134 * 2 powr 0.681 * 1 powr (1 / 3)
          * (1 / (0.5 * (3 - 1))) powr 0.2 * (1 / 1) powr 0.1134)) * 2)"
  by (rule h_Briggs_Young_formula)
    (simp_all add: Reynolds_group_def Prandtl_group_def fin_efficiency_ideal_def float_div_def)

text \<open>
  C7. Where the arithmetic is defined, \<^verbatim>\<open>h_ESDU_highfin_staggered\<close> runs the same
  pipeline with
  \<open>Nu = 0.242 Re^0.658 (bare_length / fin_height)^0.297
  (pitch_normal / pitch_parallel)^(-0.091) Pr^(1/3)\<close>, which uses the two further inputs
  \<open>pitch_parallel\<close> and \<open>pitch_normal\<close>, and returns
  \<open>((efficiency * A_fin + A_tube_showing) / A * h) * A_increase\<close>.
\<close>

theorem h_ESDU_highfin_staggered_formula:
  fixes m A A_min A_increase A_fin A_tube_showing tube_diameter fin_diameter fin_thickness
    bare_length pitch_parallel pitch_normal rho Cp mu k k_fin Re' Pr efficiency :: real
  defines "fin_height \<equiv> 0.5 * (fin_diameter - tube_diameter)"
  defines "V_max \<equiv> m / (A_min * rho)"
  defines "Nu \<equiv> 0.242 * Re' powr 0.658 * (bare_length / fin_height) powr 0.297
                  * (pitch_normal / pitch_parallel) powr (- 0.091) * Pr powr (1 / 3)"
  defines "h \<equiv> k / tube_diameter * Nu"
  assumes "A_min * rho \<noteq> 0" and "fin_height \<noteq> 0" and "pitch_parallel \<noteq> 0"
    and "tube_diameter \<noteq> 0" and "A \<noteq> 0"
    and "Reynolds V_max tube_diameter rho mu = Inr Re'" and "0 \<le> Re'"
    and "Prandtl Cp mu k = Inr Pr" and "0 \<le> Pr"
    and "0 \<le> bare_length / fin_height" and "0 < pitch_normal / pitch_parallel"
    and "fin_efficiency_Kern_Kraus tube_diameter fin_diameter fin_thickness k_fin h = Inr efficiency"
  shows "h_ESDU_highfin_staggered Reynolds Prandtl fin_efficiency_Kern_Kraus
           m A A_min A_increase A_fin A_tube_showing tube_diameter fin_diameter fin_thickness
           bare_length pitch_parallel pitch_normal rho Cp mu k k_fin =
         Inr ((efficiency * A_fin + A_tube_showing) / A * h * A_increase)"
proof -
  have p1: "float_pow Re' 0.658 = Inr (Re' powr 0.658)"
    using assms by (intro float_pow_nonneg) simp_all
  have p2: "float_pow (bare_length / fin_height) 0.297 = Inr ((bare_length / fin_height) powr 0.297)"
    using assms by (intro float_pow_nonneg) simp_all
  have p3: "float_pow (pitch_normal / pitch_parallel) (- 0.091) =
      Inr ((pitch_normal / pitch_parallel) powr (- 0.091))"
    using assms by (intro float_pow_pos) simp_all
  have p4: "float_pow Pr (1 / 3) = Inr (Pr powr (1 / 3))"
    using assms by (intro float_pow_nonneg) simp_all
  have d1: "float_div m (A_min * rho) = Inr V_max"
    using assms by (simp add: float_div_def)
  have d2: "float_div bare_length (0.5 * (fin_diameter - tube_diameter)) = Inr (bare_length / fin_height)"
    using assms by (simp add: float_div_def)
  have d3: "float_div pitch_normal pitch_parallel = Inr (pitch_normal / pitch_parallel)"
    using assms by (simp add: float_div_def)
  have d4: "float_div k tube_diameter = Inr (k / tube_diameter)"
    using assms by (simp add: float_div_def)
  have d5: "float_div (efficiency * A_fin + A_tube_showing) A =
      Inr ((efficiency * A_fin + A_tube_showing) / A)"
    using assms by (simp add: float_div_def)
  have e: "fin_efficiency_Kern_Kraus tube_diameter fin_diameter fin_thickness k_fin
      (k / tube_diameter * (0.242 * Re' powr 0.658 * (bare_length / fin_height) powr 0.297
        * (pitch_normal / pitch_parallel) powr (- 0.091) * Pr powr (1 / 3)))
      = Inr efficiency"
    using assms by simp
  show ?thesis
    unfolding h_ESDU_highfin_staggered_def Let_def d1 sum.case assms(10) assms(12)
      p1 d2 p2 d3 p3 p4 d4 e d5
    by (simp add: h_def Nu_def)
qed

theorem h_ESDU_highfin_staggered_formula_witness:
  "h_ESDU_highfin_staggered Reynolds_group Prandtl_group fin_efficiency_ideal
     2 1 1 2 1 1 1 3 1 1 4 5 1 1 1 1 1 =
   Inr ((1 * 1 + 1) / 1 * (1 / 1 * (0.242 * 2 powr 0.658 * (1 / (0.5 * (3 - 1))) powr 0.297
          * (5 / 4) powr (- 0.091) * 1 powr (1 / 3))) * 2)"
  by (rule h_ESDU_highfin_staggered_formula)
    (simp_all add: Reynolds_group_def Prandtl_group_def fin_efficiency_ideal_def float_div_def)

section \<open>Numeric enclosures for the documented examples\<close>

text \<open>
  Rational bounds on the exponential from its Taylor polynomial and remainder, and from
  them rational bounds on logarithms: \<open>ln v\<close> lies above \<open>N y\<close> when an upper
  bound of \<open>exp y\<close>, raised to the power \<open>N\<close>, stays below \<open>v\<close>, and dually.
\<close>

lemma exp_Taylor_lower:
  fixes x :: real
  assumes "0 \<le> x"
  shows "(\<Sum>k<n. x ^ k / fact k) \<le> exp x"
proof -
  obtain t where t: "exp x = (\<Sum>m<n. (x ^ m) / fact m) + (exp t / fact n) * x ^ n"
    using Maclaurin_exp_le [of x n] by blast
  have "0 \<le> (exp t / fact n) * x ^ n"
    using assms by simp
  then show ?thesis
    using t by linarith
qed

lemma exp_Taylor_upper:
  fixes x :: real
  assumes "0 \<le> x" and "x \<le> 1"
  shows "exp x \<le> (\<Sum>k<n. x ^ k / fact k) + 3 * x ^ n / fact n"
proof -
  obtain t where t: "\<bar>t\<bar> \<le> \<bar>x\<bar>"
      "exp x = (\<Sum>m<n. (x ^ m) / fact m) + (exp t / fact n) * x ^ n"
    using Maclaurin_exp_le [of x n] by blast
  have "t \<le> 1"
    using t(1) assms by linarith
  then have "exp t \<le> exp 1"
    by simp
  then have "exp t \<le> 3"
    using exp_le by linarith
  then have "exp t * (x ^ n / fact n) \<le> 3 * (x ^ n / fact n)"
    using assms by (intro mult_right_mono) simp_all
  then show ?thesis
    using t(2) by (simp add: field_simps)
qed

lemma ln_lower_bound:
  fixes y U v :: real
  assumes "0 \<le> y" and "y \<le> 1"
    and "(\<Sum>k<n. y ^ k / fact k) + 3 * y ^ n / fact n \<le> U"
    and "U ^ N \<le> v"
  shows "real N * y \<le> ln v"
proof -
  have "exp y \<le> U"
    using exp_Taylor_upper [OF assms(1,2), of n] assms(3) by linarith
  then have "exp y ^ N \<le> U ^ N"
    by (intro power_mono) simp_all
  then have le: "exp (real N * y) \<le> v"
    using assms(4) by (simp add: exp_of_nat_mult)
  have "0 < exp (real N * y)"
    by simp
  then have "0 < v"
    using le by linarith
  then show ?thesis
    using le by (simp add: ln_ge_iff)
qed

lemma ln_upper_bound:
  fixes y L v :: real
  assumes "0 \<le> y" and "0 \<le> L" and "0 < v"
    and "L \<le> (\<Sum>k<n. y ^ k / fact k)"
    and "v \<le> L ^ N"
  shows "ln v \<le> real N * y"
proof -
  have "L \<le> exp y"
    using exp_Taylor_lower [OF assms(1), of n] assms(4) by linarith
  then have "L ^ N \<le> exp y ^ N"
    using assms(2) by (intro power_mono) simp_all
  then have "v \<le> exp (real N * y)"
    using assms(5) by (simp add: exp_of_nat_mult)
  then have "ln v \<le> ln (exp (real N * y))"
    using assms(3) by (subst ln_le_cancel_iff) simp_all
  then show ?thesis
    by simp
qed


lemma ln_3_2_lower: "8 * (160814 / 3172929) \<le> ln (3 / 2 :: real)"
proof -
  have "real 8 * (160814 / 3172929) \<le> ln (3 / 2)"
    by (rule ln_lower_bound [where n = 8 and U = "1516061 / 1441137"])
      (simp_all add: lessThan_nat_numeral fact_numeral power_divide)
  then show ?thesis
    by simp
qed

lemma ln_3_2_upper: "ln (3 / 2 :: real) \<le> 8 * (197639 / 3899502)"
proof -
  have "ln (3 / 2) \<le> real 8 * (197639 / 3899502)"
    by (rule ln_upper_bound [where n = 8 and L = "3500453 / 3327460"])
      (simp_all add: lessThan_nat_numeral fact_numeral power_divide)
  then show ?thesis
    by simp
qed

text \<open>
  The sines of the even multiples of \<open>arctan (8 / 7)\<close> are rational, so the series of
  the example is a polynomial in \<open>1 - rlm\<close> with rational coefficients.
\<close>

lemma sin_2_arctan: "sin (2 * arctan x) = 2 * x / (1 + x\<^sup>2)"
proof -
  have "0 < 1 + x\<^sup>2"
    by (simp add: add_pos_nonneg)
  then have "sqrt (1 + x\<^sup>2) * sqrt (1 + x\<^sup>2) = 1 + x\<^sup>2"
    by simp
  then show ?thesis
    by (simp add: sin_double sin_arctan cos_arctan)
qed

lemma cos_2_arctan: "cos (2 * arctan x) = (1 - x\<^sup>2) / (1 + x\<^sup>2)"
proof -
  have pos: "0 < 1 + x\<^sup>2"
    by (simp add: add_pos_nonneg)
  then have "(sqrt (1 + x\<^sup>2))\<^sup>2 = 1 + x\<^sup>2"
    by simp
  then show ?thesis
    by (simp add: cos_double sin_arctan cos_arctan power_divide diff_divide_distrib)
qed

lemma sin_2_arctan_8_7: "sin (2 * arctan (8 / 7)) = 112 / 113"
  by (simp add: sin_2_arctan power2_eq_square)

lemma cos_2_arctan_8_7: "cos (2 * arctan (8 / 7)) = - 15 / 113"
  by (simp add: cos_2_arctan power2_eq_square)

lemma sin_4_arctan_8_7: "sin (4 * arctan (8 / 7)) = - 3360 / 12769"
  using sin_double [of "2 * arctan (8 / 7)"] by (simp add: sin_2_arctan_8_7 cos_2_arctan_8_7)

lemma cos_4_arctan_8_7: "cos (4 * arctan (8 / 7)) = - 12319 / 12769"
  using cos_double [of "2 * arctan (8 / 7)"]
  by (simp add: sin_2_arctan_8_7 cos_2_arctan_8_7 power2_eq_square)

lemma sin_6_arctan_8_7: "sin (6 * arctan (8 / 7)) = - 1329328 / 1442897"
  using sin_add [of "4 * arctan (8 / 7)" "2 * arctan (8 / 7)"]
  by (simp add: sin_2_arctan_8_7 cos_2_arctan_8_7 sin_4_arctan_8_7 cos_4_arctan_8_7)

lemma sin_8_arctan_8_7: "sin (8 * arctan (8 / 7)) = 82783680 / 163047361"
  using sin_double [of "4 * arctan (8 / 7)"] by (simp add: sin_4_arctan_8_7 cos_4_arctan_8_7)

lemma Ft_series_4_rows_1_pass_8_7:
  "Ft_series crossflow_4_rows_1_pass rlm (8 / 7) =
     1 - (- 28143958143 / 1019046006250 * (1 - rlm)
          + 51083237996 / 101904600625 * (1 - rlm) ^ 2
          + - 102313327277 / 101904600625 * (1 - rlm) ^ 3
          + 194579796271 / 101904600625 * (1 - rlm) ^ 4)"
  unfolding Ft_series_def crossflow_4_rows_1_pass_def
  apply (simp add: lessThan_nat_numeral sin_2_arctan_8_7 sin_4_arctan_8_7 sin_6_arctan_8_7
      sin_8_arctan_8_7 eval_nat_numeral)
  apply (simp add: field_simps)
  done

lemma Ft_polynomial_enclosure:
  fixes x :: real
  assumes lo: "9692191 / 12865120 \<le> x" and hi: "x \<le> 5955809 / 7905560"
  shows "\<bar>1 - (- 28143958143 / 1019046006250 * x
          + 51083237996 / 101904600625 * x ^ 2
          + - 102313327277 / 101904600625 * x ^ 3
          + 194579796271 / 101904600625 * x ^ 4) - 0.5505093604092708\<bar>
       \<le> 1 / 10 ^ 9 * 0.5505093604092708"
proof -
  have pos: "0 \<le> x"
    using lo by linarith
  have l2: "(9692191 / 12865120) ^ 2 \<le> x ^ 2" and l3: "(9692191 / 12865120) ^ 3 \<le> x ^ 3"
    and l4: "(9692191 / 12865120) ^ 4 \<le> x ^ 4"
    using lo by (intro power_mono; simp)+
  have u2: "x ^ 2 \<le> (5955809 / 7905560) ^ 2" and u3: "x ^ 3 \<le> (5955809 / 7905560) ^ 3"
    and u4: "x ^ 4 \<le> (5955809 / 7905560) ^ 4"
    using hi pos by (intro power_mono; simp)+
  define P where "P = - 28143958143 / 1019046006250 * x
          + 51083237996 / 101904600625 * x ^ 2
          + - 102313327277 / 101904600625 * x ^ 3
          + 194579796271 / 101904600625 * x ^ 4"
  have below: "0.5505093604092708 - 1 / 10 ^ 9 * 0.5505093604092708 \<le> 1 - P"
    unfolding P_def using lo l3 u2 u4 by (simp add: power_divide)
  have above: "1 - P \<le> 0.5505093604092708 + 1 / 10 ^ 9 * 0.5505093604092708"
    unfolding P_def using hi u3 l2 l4 by (simp add: power_divide)
  have "\<bar>1 - P - 0.5505093604092708\<bar> \<le> 1 / 10 ^ 9 * 0.5505093604092708"
    using below above by (simp only: abs_le_iff) linarith
  then show ?thesis
    unfolding P_def .
qed

lemma Ft_example_argument:
  "9692191 / 12865120 \<le> 1 - 10 / ln (3 / 2 :: real) / 100
   \<and> 1 - 10 / ln (3 / 2 :: real) / 100 \<le> 5955809 / 7905560"
proof -
  have pos: "0 < ln (3 / 2 :: real)"
    by simp
  show ?thesis
    using ln_3_2_lower ln_3_2_upper pos by (simp add: field_simps)
qed

text \<open>
  C8. \<^verbatim>\<open>Ft_aircooler(Thi=125, Tho=45, Tci=25, Tco=95, Ntp=1, rows=4)\<close> returns a value
  within a relative error of \<open>10^-9\<close> of 0.5505093604092708, with \<^verbatim>\<open>LMTD\<close> the
  counterflow log-mean temperature difference.
\<close>

theorem Ft_aircooler_example:
  "\<exists>v. Ft_aircooler LMTD_counterflow 125 45 25 95 1 4 = Inr v
     \<and> \<bar>v - 0.5505093604092708\<bar> \<le> 1 / 10 ^ 9 * 0.5505093604092708"
proof -
  have c: "Ft_aircooler_coefs 1 4 = crossflow_4_rows_1_pass"
    by (simp add: Ft_aircooler_coefs_def)
  have "Ft_aircooler LMTD_counterflow 125 45 25 95 1 4 =
      Inr (Ft_series (Ft_aircooler_coefs 1 4) (10 / ln (3 / 2) / (125 - 25)) ((125 - 45) / (95 - 25)))"
    using LMTD_counterflow_example
      Ft_aircooler_defined [of LMTD_counterflow 125 45 25 95 "10 / ln (3 / 2)" 1 4]
    by simp
  then have "Ft_aircooler LMTD_counterflow 125 45 25 95 1 4 =
      Inr (Ft_series crossflow_4_rows_1_pass (10 / ln (3 / 2) / 100) (8 / 7))"
    unfolding c by simp
  moreover have "\<bar>Ft_series crossflow_4_rows_1_pass (10 / ln (3 / 2) / 100) (8 / 7)
      - 0.5505093604092708\<bar> \<le> 1 / 10 ^ 9 * 0.5505093604092708"
    unfolding Ft_series_4_rows_1_pass_8_7
    using Ft_example_argument by (intro Ft_polynomial_enclosure) simp_all
  ultimately show ?thesis
    by blast
qed

text \<open>
  The logarithms of the GPSA example: of \<open>3177 / 304.8\<close>, of \<open>25.1 * 745.7 / hp\<close>
  and of 10.
\<close>

lemma ln_q1_lower: "32 * (715924 / 9773553) \<le> ln (5295 / 508 :: real)"
proof -
  have "real 32 * (715924 / 9773553) \<le> ln (5295 / 508)"
    by (rule ln_lower_bound [where n = 8 and U = "912015 / 847597"])
      (simp_all add: lessThan_nat_numeral fact_numeral power_divide)
  then show ?thesis
    by simp
qed

lemma ln_q1_upper: "ln (5295 / 508 :: real) \<le> 32 * (578471 / 7897091)"
proof -
  have "ln (5295 / 508) \<le> real 32 * (578471 / 7897091)"
    by (rule ln_upper_bound [where n = 8 and L = "325303 / 302326"])
      (simp_all add: lessThan_nat_numeral fact_numeral power_divide)
  then show ?thesis
    by simp
qed

lemma ln_q2_lower:
  "32 * (566651 / 5626303) \<le> ln (935853500000000000 / 37284993579113511 :: real)"
proof -
  have "real 32 * (566651 / 5626303) \<le> ln (935853500000000000 / 37284993579113511)"
    by (rule ln_lower_bound [where n = 8 and U = "478880 / 432999"])
      (simp_all add: lessThan_nat_numeral fact_numeral power_divide)
  then show ?thesis
    by simp
qed

lemma ln_q2_upper:
  "ln (935853500000000000 / 37284993579113511 :: real) \<le> 32 * (65830 / 653629)"
proof -
  have "ln (935853500000000000 / 37284993579113511) \<le> real 32 * (65830 / 653629)"
    by (rule ln_upper_bound [where n = 8 and L = "148524119 / 134294176"])
      (simp_all add: lessThan_nat_numeral fact_numeral power_divide)
  then show ?thesis
    by simp
qed

lemma ln_10_lower: "32 * (304163 / 4227082) \<le> ln (10 :: real)"
proof -
  have "real 32 * (304163 / 4227082) \<le> ln 10"
    by (rule ln_lower_bound [where n = 8 and U = "177767 / 165425"])
      (simp_all add: lessThan_nat_numeral fact_numeral power_divide)
  then show ?thesis
    by simp
qed

lemma ln_10_upper: "ln (10 :: real) \<le> 32 * (213733 / 2970338)"
proof -
  have "ln 10 \<le> real 32 * (213733 / 2970338)"
    by (rule ln_upper_bound [where n = 8 and L = "10431806 / 9707547"])
      (simp_all add: lessThan_nat_numeral fact_numeral power_divide)
  then show ?thesis
    by simp
qed

lemma air_cooler_noise_GPSA_value:
  assumes "0 < tip_speed" and "0 < power_W"
  shows "air_cooler_noise_GPSA tip_speed power_W =
     Inr (56 + 30 * log 10 (tip_speed * 60 / 304.8) + 10 * log 10 (power_W / hp))"
proof -
  have "\<not> power_W / hp \<le> 0"
    using assms(2) hp_pos by (simp add: not_le)
  then show ?thesis
    using assms hp_pos
    by (simp add: air_cooler_noise_GPSA_def float_div_def math_log10_def minute_def Let_def)
qed

lemma GPSA_example_logs:
  fixes l1 l2 l10 :: real
  assumes "32 * (715924 / 9773553) \<le> l1" and "l1 \<le> 32 * (578471 / 7897091)"
    and "32 * (566651 / 5626303) \<le> l2" and "l2 \<le> 32 * (65830 / 653629)"
    and "32 * (304163 / 4227082) \<le> l10" and "l10 \<le> 32 * (213733 / 2970338)"
  shows "\<bar>56 + 30 * (l1 / l10) + 10 * (l2 / l10) - 100.53680477959792\<bar> < 1 / 10 ^ 6"
proof -
  have pos: "0 < l10" "0 \<le> l1" "0 \<le> l2"
    using assms by linarith+
  have lo1: "32 * (715924 / 9773553) / (32 * (213733 / 2970338)) \<le> l1 / l10"
    using assms pos by (intro frac_le) simp_all
  have hi1: "l1 / l10 \<le> 32 * (578471 / 7897091) / (32 * (304163 / 4227082))"
    using assms pos by (intro frac_le) simp_all
  have lo2: "32 * (566651 / 5626303) / (32 * (213733 / 2970338)) \<le> l2 / l10"
    using assms pos by (intro frac_le) simp_all
  have hi2: "l2 / l10 \<le> 32 * (65830 / 653629) / (32 * (304163 / 4227082))"
    using assms pos by (intro frac_le) simp_all
  define r1 where "r1 = l1 / l10"
  define r2 where "r2 = l2 / l10"
  have "\<bar>56 + 30 * r1 + 10 * r2 - 100.53680477959792\<bar> < 1 / 10 ^ 6"
    using lo1 hi1 lo2 hi2 unfolding r1_def [symmetric] r2_def [symmetric]
    by (simp only: abs_less_iff) (simp add: field_simps)
  then show ?thesis
    unfolding r1_def r2_def .
qed

lemma GPSA_example_enclosure:
  "\<bar>56 + 30 * log 10 (3177 / 60 * 60 / 304.8) + 10 * log 10 (25.1 * 745.7 / hp)
     - 100.53680477959792\<bar> < 1 / 10 ^ 6"
proof -
  have q1: "(3177 / 60 * 60 / 304.8 :: real) = 5295 / 508"
    by simp
  have q2: "25.1 * 745.7 / hp = 935853500000000000 / 37284993579113511"
    by (simp add: hp_def)
  show ?thesis
    unfolding q1 q2 log_def
    by (rule GPSA_example_logs [OF ln_q1_lower ln_q1_upper ln_q2_lower ln_q2_upper
          ln_10_lower ln_10_upper])
qed

text \<open>
  C4. For positive tip speed (m/s) and power (W), \<^verbatim>\<open>air_cooler_noise_GPSA\<close> converts
  the tip speed to m/min and the power to horsepower and returns
  \<open>56 + 30 log10 (tip_speed_m_per_min / 304.8) + 10 log10 power_hp\<close>; at
  \<open>tip_speed = 3177 / 60\<close> and \<open>power = 25.1 * 745.7\<close> the value is within \<open>10^-6\<close>
  of 100.53680477959792.
\<close>

theorem air_cooler_noise_GPSA_formula:
  "(0 < tip_speed \<and> 0 < power_W \<longrightarrow>
      air_cooler_noise_GPSA tip_speed power_W =
        Inr (56 + 30 * log 10 (tip_speed * 60 / 304.8) + 10 * log 10 (power_W / hp)))
   \<and> (\<exists>v. air_cooler_noise_GPSA (3177 / 60) (25.1 * 745.7) = Inr v
         \<and> \<bar>v - 100.53680477959792\<bar> < 1 / 10 ^ 6)"
proof -
  have "air_cooler_noise_GPSA (3177 / 60) (25.1 * 745.7) =
      Inr (56 + 30 * log 10 (3177 / 60 * 60 / 304.8) + 10 * log 10 (25.1 * 745.7 / hp))"
    by (rule air_cooler_noise_GPSA_value) simp_all
  then have "\<exists>v. air_cooler_noise_GPSA (3177 / 60) (25.1 * 745.7) = Inr v
      \<and> \<bar>v - 100.53680477959792\<bar> < 1 / 10 ^ 6"
    using GPSA_example_enclosure by blast
  then show ?thesis
    using air_cooler_noise_GPSA_value [of tip_speed power_W] by blast
qed

theorem air_cooler_noise_GPSA_formula_witness:
  "air_cooler_noise_GPSA 5.08 hp = Inr 56"
proof -
  have "(0 :: real) < 5.08 \<and> 0 < hp"
    using hp_pos by simp
  then have "air_cooler_noise_GPSA 5.08 hp =
      Inr (56 + 30 * log 10 (5.08 * 60 / 304.8) + 10 * log 10 (hp / hp))"
    using air_cooler_noise_GPSA_formula [of "5.08" hp] by blast
  then show ?thesis
    using hp_pos by simp
qed

end
